theory Spec2Isabelle
  imports Main
begin

section \<open>The restart failure taxonomy (package payloads)\<close>

text \<open>
  Modelled from the spec: the declaration of \<open>RestartFailureReason\<close> (payloads/restartfailure.go
  is not among the sources). The seven constants are the ones that
  payloads/restartfailure_test.go and ciao-launcher/restart.go name; the spec calls the
  enumeration closed.
\<close>

datatype RestartFailureReason =
    RestartNoInstance
  | RestartInvalidPayload
  | RestartInvalidData
  | RestartAlreadyRunning
  | RestartInstanceCorrupt
  | RestartLaunchFailure
  | RestartNetworkFailure

text \<open>
  Modelled from the spec: the method \<open>RestartFailureReason.String\<close> (payloads/restartfailure.go
  is not among the sources). Its seven results are the expected strings of
  \<open>TestRestartFailureString\<close> in payloads/restartfailure_test.go.
\<close>

fun RestartFailureReason_String :: "RestartFailureReason \<Rightarrow> string" where
  "RestartFailureReason_String RestartNoInstance = ''Instance does not exist''"
| "RestartFailureReason_String RestartInvalidPayload = ''YAML payload is corrupt''"
| "RestartFailureReason_String RestartInvalidData =
     ''Command section of YAML payload is corrupt or missing required information''"
| "RestartFailureReason_String RestartAlreadyRunning = ''Instance is already running''"
| "RestartFailureReason_String RestartInstanceCorrupt = ''Instance is corrupt''"
| "RestartFailureReason_String RestartLaunchFailure = ''Failed to launch instance''"
| "RestartFailureReason_String RestartNetworkFailure = ''Failed to locate VNIC for instance''"

text \<open>The members of the taxonomy, in the order of the test table.\<close>

definition all_reasons :: "RestartFailureReason list" where
  "all_reasons = [RestartNoInstance, RestartInvalidPayload, RestartInvalidData,
     RestartAlreadyRunning, RestartInstanceCorrupt, RestartLaunchFailure, RestartNetworkFailure]"

section \<open>The payload codec (package payloads)\<close>

text \<open>
  The payload structs and their YAML encoding are not among the sources; only the tests
  of the package are. What follows is the codec as the spec describes it, on the wire
  format of the test fixtures: one line per key, \<open>key: value\<close>, the fields of a command
  nested under its key with two spaces.
\<close>

definition nl :: char where
  "nl = CHR 0x0A"

text \<open>
  Modelled from the spec: the wire token of each reason (the constants of
  payloads/restartfailure.go are not among the sources). The spec gives the tokens as the
  lower/underscore-case form of the member names; \<open>already_running\<close> is the one that
  payloads/restartfailure_test.go shows.
\<close>

fun reason_token :: "RestartFailureReason \<Rightarrow> string" where
  "reason_token RestartNoInstance = ''no_instance''"
| "reason_token RestartInvalidPayload = ''invalid_payload''"
| "reason_token RestartInvalidData = ''invalid_data''"
| "reason_token RestartAlreadyRunning = ''already_running''"
| "reason_token RestartInstanceCorrupt = ''instance_corrupt''"
| "reason_token RestartLaunchFailure = ''launch_failure''"
| "reason_token RestartNetworkFailure = ''network_failure''"

definition reason_of_token :: "string \<Rightarrow> RestartFailureReason option" where
  "reason_of_token t = find (\<lambda>r. reason_token r = t) all_reasons"

text \<open>The characters of a lower/underscore-case token.\<close>

definition is_token_char :: "char \<Rightarrow> bool" where
  "is_token_char c = (c \<in> set ''abcdefghijklmnopqrstuvwxyz_'')"

text \<open>
  Modelled from the spec: the command envelope (payloads/stop.go and its siblings are not
  among the sources). The envelope is a tagged union over the command kinds that the spec
  names: \<open>stop\<close>, \<open>delete\<close>, \<open>restart\<close> and \<open>start\<close>. Each variant carries the two
  fields \<open>instance_uuid\<close> and \<open>workload_agent_uuid\<close> that the spec gives every variant; the
  Go field names are those that the stop and delete tests read.
\<close>

record StopCmd =
  InstanceUUID :: string
  WorkloadAgentUUID :: string

datatype CommandEnvelope = Stop StopCmd | Delete StopCmd | Restart StopCmd | Start StopCmd

text \<open>
  Modelled from the spec: the error payload \<open>ErrorRestartFailure\<close> (payloads/restartfailure.go
  is not among the sources), an instance UUID paired with a reason. Its first field is
  \<open>InstanceUUID\<close> in Go; the name is prefixed here to keep it apart from the command's.
\<close>

record ErrorRestartFailure =
  FailureInstanceUUID :: string
  Reason :: RestartFailureReason

text \<open>Modelled from the spec: the decode errors (the decoder is not among the sources).\<close>

datatype DecodeError =
    SyntaxError string
  | EmptyDocument
  | UnknownKey string
  | MissingField string
  | NotAMapping string
  | NotAScalar string
  | UnknownReason string

text \<open>
  A well-formed UUID in its textual form: 36 characters, hyphens at positions 8, 13, 18
  and 23, hexadecimal digits elsewhere.
\<close>

definition is_hex :: "char \<Rightarrow> bool" where
  "is_hex c = (c \<in> set ''0123456789abcdefABCDEF'')"

definition uuid_char_ok :: "nat \<Rightarrow> char \<Rightarrow> bool" where
  "uuid_char_ok i c = (if i \<in> {8, 13, 18, 23} then c = CHR ''-'' else is_hex c)"

definition is_uuid :: "string \<Rightarrow> bool" where
  "is_uuid s = (length s = 36 \<and> list_all (\<lambda>i. uuid_char_ok i (s ! i)) [0..<36])"

fun command_key :: "CommandEnvelope \<Rightarrow> string" where
  "command_key (Stop _) = ''stop''"
| "command_key (Delete _) = ''delete''"
| "command_key (Restart _) = ''restart''"
| "command_key (Start _) = ''start''"

fun command_body :: "CommandEnvelope \<Rightarrow> StopCmd" where
  "command_body (Stop b) = b"
| "command_body (Delete b) = b"
| "command_body (Restart b) = b"
| "command_body (Start b) = b"

definition command_of_key :: "string \<Rightarrow> (StopCmd \<Rightarrow> CommandEnvelope) option" where
  "command_of_key k =
     (if k = ''stop'' then Some Stop
      else if k = ''delete'' then Some Delete
      else if k = ''restart'' then Some Restart
      else if k = ''start'' then Some Start
      else None)"

text \<open>
  Modelled from the spec: the encoder of commands (the marshalling of the payload structs
  is not among the sources). The field order is fixed; the layout is that of \<open>stopYaml\<close>
  in the stop test.
\<close>

definition encode :: "CommandEnvelope \<Rightarrow> string" where
  "encode c =
     command_key c @ '':'' @ [nl]
     @ ''  instance_uuid: '' @ InstanceUUID (command_body c) @ [nl]
     @ ''  workload_agent_uuid: '' @ WorkloadAgentUUID (command_body c) @ [nl]"

text \<open>
  Modelled from the spec: the encoder of restart error payloads (not among the sources),
  in the layout of the fixture of \<open>TestRestartFailureUnmarshal\<close>.
\<close>

definition encode_error :: "ErrorRestartFailure \<Rightarrow> string" where
  "encode_error e =
     ''instance_uuid: '' @ FailureInstanceUUID e @ [nl]
     @ ''reason: '' @ reason_token (Reason e) @ [nl]"

text \<open>
  Modelled from the spec: the strict decoder (the unmarshalling of the payload structs is
  not among the sources). A payload is cut into lines; a line is \<open>key:\<close> or
  \<open>key: value\<close>, at top level or nested by two spaces; anything else is a syntax error.
\<close>

fun lines_of :: "string \<Rightarrow> string list" where
  "lines_of [] = [[]]"
| "lines_of (c # cs) =
     (if c = nl then [] # lines_of cs
      else (case lines_of cs of [] \<Rightarrow> [[c]] | l # ls \<Rightarrow> (c # l) # ls))"

definition doc_lines :: "string \<Rightarrow> string list" where
  "doc_lines s = (let ls = lines_of s in if last ls = [] then butlast ls else ls)"

definition parse_kv :: "string \<Rightarrow> (string \<times> string option) option" where
  "parse_kv l =
     (let k = takeWhile (\<lambda>c. c \<noteq> CHR '':'') l;
          r = dropWhile (\<lambda>c. c \<noteq> CHR '':'') l
      in if k = [] \<or> CHR '' '' \<in> set k then None
         else (case r of
                 [] \<Rightarrow> None
               | [_] \<Rightarrow> Some (k, None)
               | _ # c # v \<Rightarrow> if c = CHR '' '' then Some (k, Some v) else None))"

datatype node = Scalar string | Mapping "(string \<times> string) list"

fun build :: "string list \<Rightarrow> DecodeError + ((string \<times> string) list \<times> (string \<times> node) list)" where
  "build [] = Inr ([], [])"
| "build (l # ls) =
     (case build ls of
        Inl e \<Rightarrow> Inl e
      | Inr (pend, d) \<Rightarrow>
          if take 2 l = ''  '' then
            (case parse_kv (drop 2 l) of
               Some (k, Some v) \<Rightarrow> Inr ((k, v) # pend, d)
             | _ \<Rightarrow> Inl (SyntaxError l))
          else
            (case parse_kv l of
               None \<Rightarrow> Inl (SyntaxError l)
             | Some (k, None) \<Rightarrow> Inr ([], (k, Mapping pend) # d)
             | Some (k, Some v) \<Rightarrow>
                 if pend = [] then Inr ([], (k, Scalar v) # d) else Inl (SyntaxError l)))"

definition parse :: "string \<Rightarrow> DecodeError + (string \<times> node) list" where
  "parse s =
     (case build (doc_lines s) of
        Inl e \<Rightarrow> Inl e
      | Inr (pend, d) \<Rightarrow> if pend = [] then Inr d else Inl (SyntaxError (hd (doc_lines s))))"

text \<open>
  Modelled from the spec: the fields of a command. A missing required field is an error
  that names the field; an unknown key is an error.
\<close>

definition decode_cmd :: "(string \<times> string) list \<Rightarrow> DecodeError + StopCmd" where
  "decode_cmd fs =
     (case map_of fs ''instance_uuid'' of
        None \<Rightarrow> Inl (MissingField ''instance_uuid'')
      | Some iu \<Rightarrow>
          (case map_of fs ''workload_agent_uuid'' of
             None \<Rightarrow> Inl (MissingField ''workload_agent_uuid'')
           | Some au \<Rightarrow>
               (case filter (\<lambda>k. k \<noteq> ''instance_uuid'' \<and> k \<noteq> ''workload_agent_uuid'') (map fst fs) of
                  k # _ \<Rightarrow> Inl (UnknownKey k)
                | [] \<Rightarrow> Inr \<lparr>InstanceUUID = iu, WorkloadAgentUUID = au\<rparr>)))"

text \<open>
  Modelled from the spec: the top-level key selects the variant; an unrecognised key and
  a second top-level key are errors.
\<close>

definition decode_doc :: "(string \<times> node) list \<Rightarrow> DecodeError + CommandEnvelope" where
  "decode_doc d =
     (case d of
        [] \<Rightarrow> Inl EmptyDocument
      | (k, n) # rest \<Rightarrow>
          (case command_of_key k of
             None \<Rightarrow> Inl (UnknownKey k)
           | Some mk \<Rightarrow>
               (case n of
                  Scalar _ \<Rightarrow> Inl (NotAMapping k)
                | Mapping fs \<Rightarrow>
                    (case decode_cmd fs of
                       Inl e \<Rightarrow> Inl e
                     | Inr b \<Rightarrow>
                         (case rest of
                            [] \<Rightarrow> Inr (mk b)
                          | (k', _) # _ \<Rightarrow> Inl (UnknownKey k'))))))"

definition decode :: "string \<Rightarrow> DecodeError + CommandEnvelope" where
  "decode s = (case parse s of Inl e \<Rightarrow> Inl e | Inr d \<Rightarrow> decode_doc d)"

text \<open>Modelled from the spec: the strict decoder of restart error payloads.\<close>

definition decode_error_doc :: "(string \<times> node) list \<Rightarrow> DecodeError + ErrorRestartFailure" where
  "decode_error_doc d =
     (case map_of d ''instance_uuid'' of
        None \<Rightarrow> Inl (MissingField ''instance_uuid'')
      | Some (Mapping _) \<Rightarrow> Inl (NotAScalar ''instance_uuid'')
      | Some (Scalar iu) \<Rightarrow>
          (case map_of d ''reason'' of
             None \<Rightarrow> Inl (MissingField ''reason'')
           | Some (Mapping _) \<Rightarrow> Inl (NotAScalar ''reason'')
           | Some (Scalar t) \<Rightarrow>
               (case reason_of_token t of
                  None \<Rightarrow> Inl (UnknownReason t)
                | Some r \<Rightarrow>
                    (case filter (\<lambda>k. k \<noteq> ''instance_uuid'' \<and> k \<noteq> ''reason'') (map fst d) of
                       k # _ \<Rightarrow> Inl (UnknownKey k)
                     | [] \<Rightarrow> Inr \<lparr>FailureInstanceUUID = iu, Reason = r\<rparr>))))"

definition decode_error :: "string \<Rightarrow> DecodeError + ErrorRestartFailure" where
  "decode_error s = (case parse s of Inl e \<Rightarrow> Inl e | Inr d \<Rightarrow> decode_error_doc d)"

text \<open>The fixtures of the stop test and of \<open>TestRestartFailureUnmarshal\<close>.\<close>

definition instanceUUID :: string where
  "instanceUUID = ''3390740c-dce9-48d6-b83a-a717417072ce''"

definition agentUUID :: string where
  "agentUUID = ''59460b8a-5f53-4e3e-b5ce-b71fed8c7e64''"

definition stopYaml :: string where
  "stopYaml = '''' @ ''stop:'' @ [nl]
     @ ''  instance_uuid: '' @ instanceUUID @ [nl]
     @ ''  workload_agent_uuid: '' @ agentUUID @ [nl]"

definition restartFailureYaml :: string where
  "restartFailureYaml = ''instance_uuid: 2400bce6-ccc8-4a45-b2aa-b5cc3790077b'' @ [nl]
     @ ''reason: already_running'' @ [nl]"

section \<open>The restart procedure (ciao-launcher/restart.go)\<close>

text \<open>
  A Go \<open>error\<close> is \<open>'e option\<close>: \<open>None\<close> is \<open>nil\<close>. The struct \<open>restartError\<close> has the
  fields \<open>err\<close> and \<open>code\<close>; a \<open>*restartError\<close> result is \<open>'e restartError option\<close>
  with \<open>None\<close> for \<open>nil\<close>.
\<close>

record 'e restartError =
  err :: "'e option"
  code :: RestartFailureReason

text \<open>The one ssntp error kind that restart.go passes to \<open>SendError\<close>.\<close>

datatype ssntp_Error = RestartFailure

text \<open>
  Every call that leaves \<open>processRestart\<close> or \<open>send\<close> is recorded, with its arguments and
  what it returned, in the order in which it is made. \<open>'c\<close> is \<open>*vmConfig\<close>, \<open>'v\<close> is
  \<open>*libsnnet.VnicConfig\<close>.
\<close>

datatype ('e, 'c, 'v) event =
    CallEnabled bool
  | CallCreateVnicCfg 'c "'e option"
  | CallCreateVnic 'v string "'e option"
  | CallGetNodeIPAddress string
  | CallStartVM string string "'e option"
  | CallIsConnected bool
  | CallGenerateRestartError string "'e restartError" "'e option"
  | CallSendError ssntp_Error string "'e option"
  | LogErrorf string "'e option"

text \<open>
  The collaborators are not part of restart.go. Each is a parameter: a function of the
  state \<open>'w\<close> of everything outside the procedure, returning its Go results and the
  state it leaves. A collaborator that panics or does not return is outside the model.
\<close>

record ('e, 'w) serverConn =
  isConnected :: "'w \<Rightarrow> bool \<times> 'w"
  SendError :: "ssntp_Error \<Rightarrow> string \<Rightarrow> 'w \<Rightarrow> (int \<times> 'e option) \<times> 'w"

record ('e, 'w) virtualizer =
  startVM :: "string \<Rightarrow> string \<Rightarrow> 'w \<Rightarrow> 'e option \<times> 'w"

record ('e, 'c, 'v, 'm, 'w) launcher =
  networking_Enabled :: "'w \<Rightarrow> bool \<times> 'w"
  createVnicCfg :: "'c \<Rightarrow> 'w \<Rightarrow> ('v \<times> 'e option) \<times> 'w"
  createVnic :: "('e, 'w) serverConn \<Rightarrow> 'v \<Rightarrow> 'w \<Rightarrow> (string \<times> 'm \<times> 'e option) \<times> 'w"
  getNodeIPAddress :: "'w \<Rightarrow> string \<times> 'w"
  generateRestartError :: "string \<Rightarrow> 'e restartError \<Rightarrow> 'w \<Rightarrow> (string \<times> 'e option) \<times> 'w"

record ('e, 'c, 'v, 'w) st =
  trace :: "('e, 'c, 'v) event list"
  world :: 'w

definition record_event :: "('e, 'c, 'v) event \<Rightarrow> ('e, 'c, 'v, 'w) st \<Rightarrow> ('e, 'c, 'v, 'w) st" where
  "record_event ev s = s\<lparr>trace := trace s @ [ev]\<rparr>"

text \<open>\<open>glog.Errorf(format, err)\<close>\<close>

definition glog_Errorf :: "string \<Rightarrow> 'e option \<Rightarrow> ('e, 'c, 'v, 'w) st \<Rightarrow> ('e, 'c, 'v, 'w) st" where
  "glog_Errorf fmt e s = record_event (LogErrorf fmt e) s"

text \<open>
  \<open>invoke f mk s\<close> runs the collaborator \<open>f\<close> on the outside state and records the event
  that \<open>mk\<close> builds from its result.
\<close>

definition invoke ::
  "('w \<Rightarrow> 'a \<times> 'w) \<Rightarrow> ('a \<Rightarrow> ('e, 'c, 'v) event) \<Rightarrow> ('e, 'c, 'v, 'w) st \<Rightarrow> 'a \<times> ('e, 'c, 'v, 'w) st" where
  "invoke f mk s =
     (case f (world s) of (r, w') \<Rightarrow> (r, \<lparr>trace = trace s @ [mk r], world = w'\<rparr>))"

text \<open>
  Lines 53 to 63: the networking block. \<open>Inl\<close> is an early return of a \<open>restartError\<close>;
  \<open>Inr\<close> is the value of \<open>vnicName\<close> with which the procedure goes on (its zero value
  \<open>''''\<close> when networking is disabled).
\<close>

definition processRestart_network ::
  "('e, 'c, 'v, 'm, 'w) launcher \<Rightarrow> ('e, 'w) serverConn \<Rightarrow> 'c \<Rightarrow> ('e, 'c, 'v, 'w) st
     \<Rightarrow> ('e restartError + string) \<times> ('e, 'c, 'v, 'w) st" where
  "processRestart_network L conn cfg s0 =
     (case invoke (networking_Enabled L) CallEnabled s0 of (enabled, s1) \<Rightarrow>
        if enabled then
          (case invoke (createVnicCfg L cfg) (\<lambda>r. CallCreateVnicCfg cfg (snd r)) s1 of
             ((vnicCfg, e1), s2) \<Rightarrow>
               if e1 \<noteq> None then
                 (Inl \<lparr>err = e1, code = RestartInstanceCorrupt\<rparr>,
                  glog_Errorf ''Could not create VnicCFG: %s'' e1 s2)
               else
                 (case invoke (createVnic L conn vnicCfg)
                         (\<lambda>r. CallCreateVnic vnicCfg (fst r) (snd (snd r))) s2 of
                    ((vnicName, _, e2), s3) \<Rightarrow>
                      if e2 \<noteq> None then (Inl \<lparr>err = e2, code = RestartNetworkFailure\<rparr>, s3)
                      else (Inr vnicName, s3)))
        else (Inr [], s1))"

text \<open>
  \<open>processRestart\<close>: the networking block, then lines 65 to 70. Go evaluates the argument
  \<open>getNodeIPAddress()\<close> before it calls \<open>vm.startVM\<close>.
\<close>

definition processRestart ::
  "('e, 'c, 'v, 'm, 'w) launcher \<Rightarrow> string \<Rightarrow> ('e, 'w) virtualizer \<Rightarrow> ('e, 'w) serverConn \<Rightarrow> 'c
     \<Rightarrow> ('e, 'c, 'v, 'w) st \<Rightarrow> 'e restartError option \<times> ('e, 'c, 'v, 'w) st" where
  "processRestart L instanceDir vm conn cfg s0 =
     (case processRestart_network L conn cfg s0 of
        (Inl re, s) \<Rightarrow> (Some re, s)
      | (Inr vnicName, s) \<Rightarrow>
          (case invoke (getNodeIPAddress L) CallGetNodeIPAddress s of (ip, s4) \<Rightarrow>
             (case invoke (startVM vm vnicName ip) (CallStartVM vnicName ip) s4 of (e3, s5) \<Rightarrow>
                if e3 \<noteq> None then (Some \<lparr>err = e3, code = RestartLaunchFailure\<rparr>, s5)
                else (None, s5))))"

text \<open>
  \<open>(re *restartError) send\<close>. The method returns nothing; the model returns the value of
  the receiver after the call, which no line of the method assigns to.
  \<open>generateRestartError\<close> receives the receiver and is taken to read it only.
\<close>

definition send ::
  "('e, 'c, 'v, 'm, 'w) launcher \<Rightarrow> 'e restartError \<Rightarrow> ('e, 'w) serverConn \<Rightarrow> string
     \<Rightarrow> ('e, 'c, 'v, 'w) st \<Rightarrow> 'e restartError \<times> ('e, 'c, 'v, 'w) st" where
  "send L re conn instance s0 =
     (case invoke (isConnected conn) CallIsConnected s0 of (connected, s1) \<Rightarrow>
        if \<not> connected then (re, s1)
        else
          (case invoke (generateRestartError L instance re)
                  (\<lambda>r. CallGenerateRestartError instance re (snd r)) s1 of
             ((payload, e1), s2) \<Rightarrow>
               if e1 \<noteq> None then
                 (re, glog_Errorf ''Unable to generate payload for restart_failure: %v'' e1 s2)
               else
                 (case invoke (SendError conn RestartFailure payload)
                         (\<lambda>r. CallSendError RestartFailure payload (snd r)) s2 of
                    ((_, e2), s3) \<Rightarrow>
                      if e2 \<noteq> None then
                        (re, glog_Errorf ''Unable to send restart_failure: %v'' e2 s3)
                      else (re, s3))))"

text \<open>The events that a run appended to the trace.\<close>

definition new_events :: "('e, 'c, 'v, 'w) st \<Rightarrow> ('e, 'c, 'v, 'w) st \<Rightarrow> ('e, 'c, 'v) event list" where
  "new_events s s' = drop (length (trace s)) (trace s')"

text \<open>The three provisioning calls, and whether one returned an error.\<close>

fun is_provisioning :: "('e, 'c, 'v) event \<Rightarrow> bool" where
  "is_provisioning (CallCreateVnicCfg _ _) = True"
| "is_provisioning (CallCreateVnic _ _ _) = True"
| "is_provisioning (CallStartVM _ _ _) = True"
| "is_provisioning _ = False"

fun returned_error :: "('e, 'c, 'v) event \<Rightarrow> 'e option" where
  "returned_error (CallCreateVnicCfg _ e) = e"
| "returned_error (CallCreateVnic _ _ e) = e"
| "returned_error (CallStartVM _ _ e) = e"
| "returned_error (CallGenerateRestartError _ _ e) = e"
| "returned_error (CallSendError _ _ e) = e"
| "returned_error _ = None"

fun is_CallCreateVnicCfg :: "('e, 'c, 'v) event \<Rightarrow> bool" where
  "is_CallCreateVnicCfg (CallCreateVnicCfg _ _) = True"
| "is_CallCreateVnicCfg _ = False"

fun is_CallCreateVnic :: "('e, 'c, 'v) event \<Rightarrow> bool" where
  "is_CallCreateVnic (CallCreateVnic _ _ _) = True"
| "is_CallCreateVnic _ = False"

fun is_CallStartVM :: "('e, 'c, 'v) event \<Rightarrow> bool" where
  "is_CallStartVM (CallStartVM _ _ _) = True"
| "is_CallStartVM _ = False"

fun is_CallSendError :: "('e, 'c, 'v) event \<Rightarrow> bool" where
  "is_CallSendError (CallSendError _ _ _) = True"
| "is_CallSendError _ = False"


subsection \<open>Test doubles\<close>

text \<open>
  Fakes for the collaborators, with the failure of each step injected by a parameter. The
  outside state is a counter of the calls that changed something.
\<close>

definition fake_conn :: "bool \<Rightarrow> string option \<Rightarrow> (string, nat) serverConn" where
  "fake_conn connected send_err =
     \<lparr>isConnected = (\<lambda>w. (connected, w)),
      SendError = (\<lambda>k p w. ((if send_err = None then int (length p) else 0, send_err), w + 1))\<rparr>"

definition fake_vm :: "string option \<Rightarrow> (string, nat) virtualizer" where
  "fake_vm start_err = \<lparr>startVM = (\<lambda>n ip w. (start_err, w + 1))\<rparr>"

definition fake_launcher ::
  "bool \<Rightarrow> string option \<Rightarrow> string option \<Rightarrow> string option \<Rightarrow> (string, nat, nat, unit, nat) launcher" where
  "fake_launcher enabled cfg_err vnic_err gen_err =
     \<lparr>networking_Enabled = (\<lambda>w. (enabled, w)),
      createVnicCfg = (\<lambda>c w. ((c, cfg_err), w + 1)),
      createVnic = (\<lambda>conn v w. ((''vnic0'', (), vnic_err), w + 1)),
      getNodeIPAddress = (\<lambda>w. (''10.0.0.1'', w)),
      generateRestartError = (\<lambda>i re w. ((i, gen_err), w))\<rparr>"

definition st0 :: "(string, nat, nat, nat) st" where
  "st0 = \<lparr>trace = [], world = 0\<rparr>"

section \<open>Properties of the restart procedure\<close>

lemmas restart_defs = processRestart_def processRestart_network_def invoke_def glog_Errorf_def
  record_event_def

lemmas fake_defs = fake_conn_def fake_vm_def fake_launcher_def st0_def

text \<open>The four ways through \<open>processRestart\<close>, each with the trace it leaves.\<close>

lemma processRestart_disabled:
  assumes "networking_Enabled L (world s) = (False, w1)"
    and "getNodeIPAddress L w1 = (ip, w2)"
    and "startVM vm [] ip w2 = (e, w3)"
  shows "processRestart L dir vm conn cfg s =
     (if e \<noteq> None then Some \<lparr>err = e, code = RestartLaunchFailure\<rparr> else None,
      \<lparr>trace = trace s @ [CallEnabled False, CallGetNodeIPAddress ip, CallStartVM [] ip e],
       world = w3\<rparr>)"
  using assms by (simp add: restart_defs)

lemma processRestart_cfg_failed:
  assumes "networking_Enabled L (world s) = (True, w1)"
    and "createVnicCfg L cfg w1 = ((v, Some e), w2)"
  shows "processRestart L dir vm conn cfg s =
     (Some \<lparr>err = Some e, code = RestartInstanceCorrupt\<rparr>,
      \<lparr>trace = trace s @ [CallEnabled True, CallCreateVnicCfg cfg (Some e),
                           LogErrorf ''Could not create VnicCFG: %s'' (Some e)],
       world = w2\<rparr>)"
  using assms by (simp add: restart_defs)

lemma processRestart_vnic_failed:
  assumes "networking_Enabled L (world s) = (True, w1)"
    and "createVnicCfg L cfg w1 = ((v, None), w2)"
    and "createVnic L conn v w2 = ((n, m, Some e), w3)"
  shows "processRestart L dir vm conn cfg s =
     (Some \<lparr>err = Some e, code = RestartNetworkFailure\<rparr>,
      \<lparr>trace = trace s @ [CallEnabled True, CallCreateVnicCfg cfg None,
                           CallCreateVnic v n (Some e)],
       world = w3\<rparr>)"
  using assms by (simp add: restart_defs)

lemma processRestart_enabled_start:
  assumes "networking_Enabled L (world s) = (True, w1)"
    and "createVnicCfg L cfg w1 = ((v, None), w2)"
    and "createVnic L conn v w2 = ((n, m, None), w3)"
    and "getNodeIPAddress L w3 = (ip, w4)"
    and "startVM vm n ip w4 = (e, w5)"
  shows "processRestart L dir vm conn cfg s =
     (if e \<noteq> None then Some \<lparr>err = e, code = RestartLaunchFailure\<rparr> else None,
      \<lparr>trace = trace s @ [CallEnabled True, CallCreateVnicCfg cfg None,
                           CallCreateVnic v n None, CallGetNodeIPAddress ip, CallStartVM n ip e],
       world = w5\<rparr>)"
  using assms by (simp add: restart_defs)

text \<open>Every run takes one of them.\<close>

lemma processRestart_shapes:
  assumes run: "processRestart L dir vm conn cfg s = (r, s')"
  shows "(\<exists>ip e. fst (networking_Enabled L (world s)) = False
            \<and> r = (if e \<noteq> None then Some \<lparr>err = e, code = RestartLaunchFailure\<rparr> else None)
            \<and> new_events s s' = [CallEnabled False, CallGetNodeIPAddress ip, CallStartVM [] ip e])
       \<or> (\<exists>e. fst (networking_Enabled L (world s)) = True
            \<and> r = Some \<lparr>err = Some e, code = RestartInstanceCorrupt\<rparr>
            \<and> new_events s s' = [CallEnabled True, CallCreateVnicCfg cfg (Some e),
                                  LogErrorf ''Could not create VnicCFG: %s'' (Some e)])
       \<or> (\<exists>v n e. fst (networking_Enabled L (world s)) = True
            \<and> r = Some \<lparr>err = Some e, code = RestartNetworkFailure\<rparr>
            \<and> new_events s s' = [CallEnabled True, CallCreateVnicCfg cfg None,
                                  CallCreateVnic v n (Some e)])
       \<or> (\<exists>v n ip e. fst (networking_Enabled L (world s)) = True
            \<and> r = (if e \<noteq> None then Some \<lparr>err = e, code = RestartLaunchFailure\<rparr> else None)
            \<and> new_events s s' = [CallEnabled True, CallCreateVnicCfg cfg None,
                 CallCreateVnic v n None, CallGetNodeIPAddress ip, CallStartVM n ip e])"
proof -
  obtain en w1 where en: "networking_Enabled L (world s) = (en, w1)"
    by (cases "networking_Enabled L (world s)")
  show ?thesis
  proof (cases en)
    case False
    with en have en': "networking_Enabled L (world s) = (False, w1)" by simp
    obtain ip w2 where ip: "getNodeIPAddress L w1 = (ip, w2)" by (cases "getNodeIPAddress L w1")
    obtain e w3 where e: "startVM vm [] ip w2 = (e, w3)" by (cases "startVM vm [] ip w2")
    from processRestart_disabled [OF en' ip e, of dir conn cfg] run en'
    show ?thesis by (auto simp: new_events_def)
  next
    case True
    with en have en': "networking_Enabled L (world s) = (True, w1)" by simp
    obtain v e1 w2 where c: "createVnicCfg L cfg w1 = ((v, e1), w2)"
      by (cases "createVnicCfg L cfg w1") auto
    show ?thesis
    proof (cases e1)
      case (Some e)
      with c have c': "createVnicCfg L cfg w1 = ((v, Some e), w2)" by simp
      from processRestart_cfg_failed [OF en' c', of dir vm conn] run en'
      show ?thesis by (auto simp: new_events_def)
    next
      case None
      with c have c': "createVnicCfg L cfg w1 = ((v, None), w2)" by simp
      obtain n m e2 w3 where k: "createVnic L conn v w2 = ((n, m, e2), w3)"
        by (cases "createVnic L conn v w2") auto
      show ?thesis
      proof (cases e2)
        case (Some e)
        with k have k': "createVnic L conn v w2 = ((n, m, Some e), w3)" by simp
        from processRestart_vnic_failed [OF en' c' k', of dir vm] run en'
        show ?thesis by (auto simp: new_events_def)
      next
        case None
        with k have k': "createVnic L conn v w2 = ((n, m, None), w3)" by simp
        obtain ip w4 where ip: "getNodeIPAddress L w3 = (ip, w4)" by (cases "getNodeIPAddress L w3")
        obtain e w5 where e: "startVM vm n ip w4 = (e, w5)" by (cases "startVM vm n ip w4")
        from processRestart_enabled_start [OF en' c' k' ip e, of dir] run en'
        show ?thesis by (auto simp: new_events_def)
      qed
    qed
  qed
qed

text \<open>
  C1. For every run of \<open>processRestart\<close>: when networking is disabled, the VNIC creator is
  not called and the one call of \<open>startVM\<close> gets the empty VNIC name; when networking is
  enabled and \<open>createVnicCfg\<close> returns an error, neither the VNIC creator nor \<open>startVM\<close> is
  called and the result carries \<open>RestartInstanceCorrupt\<close>; and the provisioning calls of
  the run are, in this order, build-config, create-VNIC, start-VM, cut after the first one
  that returned an error, the result being \<open>nil\<close> exactly when none did.
\<close>

theorem processRestart_ordering:
  assumes run: "processRestart L dir vm conn cfg s = (r, s')"
  shows "(fst (networking_Enabled L (world s)) = False \<longrightarrow>
            (\<forall>ev \<in> set (new_events s s'). \<not> is_CallCreateVnic ev) \<and>
            (\<exists>ip e. filter is_CallStartVM (new_events s s') = [CallStartVM [] ip e]))
       \<and> (\<forall>w1 v e w2. networking_Enabled L (world s) = (True, w1)
              \<and> createVnicCfg L cfg w1 = ((v, Some e), w2) \<longrightarrow>
            r = Some \<lparr>err = Some e, code = RestartInstanceCorrupt\<rparr> \<and>
            (\<forall>ev \<in> set (new_events s s'). \<not> is_CallCreateVnic ev \<and> \<not> is_CallStartVM ev))
       \<and> ((\<exists>ip e. fst (networking_Enabled L (world s)) = False
              \<and> filter is_provisioning (new_events s s') = [CallStartVM [] ip e]
              \<and> (r = None) = (e = None))
          \<or> (\<exists>e. fst (networking_Enabled L (world s)) = True
              \<and> filter is_provisioning (new_events s s') = [CallCreateVnicCfg cfg (Some e)]
              \<and> r \<noteq> None)
          \<or> (\<exists>v n e. fst (networking_Enabled L (world s)) = True
              \<and> filter is_provisioning (new_events s s') =
                  [CallCreateVnicCfg cfg None, CallCreateVnic v n (Some e)]
              \<and> r \<noteq> None)
          \<or> (\<exists>v n ip e. fst (networking_Enabled L (world s)) = True
              \<and> filter is_provisioning (new_events s s') =
                  [CallCreateVnicCfg cfg None, CallCreateVnic v n None, CallStartVM n ip e]
              \<and> (r = None) = (e = None)))"
proof (intro conjI allI impI)
  assume "fst (networking_Enabled L (world s)) = False"
  with processRestart_shapes [OF run]
  show "\<forall>ev \<in> set (new_events s s'). \<not> is_CallCreateVnic ev" by auto
next
  assume "fst (networking_Enabled L (world s)) = False"
  with processRestart_shapes [OF run]
  show "\<exists>ip e. filter is_CallStartVM (new_events s s') = [CallStartVM [] ip e]" by auto
next
  fix w1 v e w2
  assume h: "networking_Enabled L (world s) = (True, w1)
     \<and> createVnicCfg L cfg w1 = ((v, Some e), w2)"
  from processRestart_cfg_failed [of L s w1 cfg v e w2 dir vm conn] h run
  show "r = Some \<lparr>err = Some e, code = RestartInstanceCorrupt\<rparr>" by simp
  from processRestart_cfg_failed [of L s w1 cfg v e w2 dir vm conn] h run
  show "\<forall>ev \<in> set (new_events s s'). \<not> is_CallCreateVnic ev \<and> \<not> is_CallStartVM ev"
    by (auto simp: new_events_def)
next
  from processRestart_shapes [OF run]
  show "(\<exists>ip e. fst (networking_Enabled L (world s)) = False
              \<and> filter is_provisioning (new_events s s') = [CallStartVM [] ip e]
              \<and> (r = None) = (e = None))
          \<or> (\<exists>e. fst (networking_Enabled L (world s)) = True
              \<and> filter is_provisioning (new_events s s') = [CallCreateVnicCfg cfg (Some e)]
              \<and> r \<noteq> None)
          \<or> (\<exists>v n e. fst (networking_Enabled L (world s)) = True
              \<and> filter is_provisioning (new_events s s') =
                  [CallCreateVnicCfg cfg None, CallCreateVnic v n (Some e)]
              \<and> r \<noteq> None)
          \<or> (\<exists>v n ip e. fst (networking_Enabled L (world s)) = True
              \<and> filter is_provisioning (new_events s s') =
                  [CallCreateVnicCfg cfg None, CallCreateVnic v n None, CallStartVM n ip e]
              \<and> (r = None) = (e = None))"
    by (elim disjE exE conjE) (simp_all split: if_splits)
qed


theorem processRestart_ordering_witness:
  "processRestart (fake_launcher False None None None) ''i1'' (fake_vm (Some ''no kvm''))
      (fake_conn True None) 7 st0
     = (Some \<lparr>err = Some ''no kvm'', code = RestartLaunchFailure\<rparr>,
        \<lparr>trace = [CallEnabled False, CallGetNodeIPAddress ''10.0.0.1'',
                  CallStartVM [] ''10.0.0.1'' (Some ''no kvm'')], world = 1\<rparr>)
   \<and> fst (networking_Enabled (fake_launcher False None None None) (world st0)) = False
   \<and> filter is_CallStartVM (new_events st0
        \<lparr>trace = [CallEnabled False, CallGetNodeIPAddress ''10.0.0.1'',
                  CallStartVM [] ''10.0.0.1'' (Some ''no kvm'')], world = 1\<rparr>)
       = [CallStartVM [] ''10.0.0.1'' (Some ''no kvm'')]
   \<and> networking_Enabled (fake_launcher True (Some ''no subnet'') None None) (world st0) = (True, 0)
   \<and> createVnicCfg (fake_launcher True (Some ''no subnet'') None None) 7 0
       = ((7, Some ''no subnet''), 1)
   \<and> fst (processRestart (fake_launcher True (Some ''no subnet'') None None) ''i1'' (fake_vm None)
        (fake_conn True None) 7 st0)
       = Some \<lparr>err = Some ''no subnet'', code = RestartInstanceCorrupt\<rparr>"
proof -
  let ?L = "fake_launcher False None None None"
  let ?s' = "\<lparr>trace = [CallEnabled False, CallGetNodeIPAddress ''10.0.0.1'',
                  CallStartVM [] ''10.0.0.1'' (Some ''no kvm'')], world = 1\<rparr>
             :: (string, nat, nat, nat) st"
  have run1: "processRestart ?L ''i1'' (fake_vm (Some ''no kvm'')) (fake_conn True None) 7 st0
     = (Some \<lparr>err = Some ''no kvm'', code = RestartLaunchFailure\<rparr>, ?s')"
    by (simp add: restart_defs fake_defs)
  have off: "fst (networking_Enabled ?L (world st0)) = False"
    by (simp add: fake_defs)
  from processRestart_ordering [OF run1] off
  have "\<exists>ip e. filter is_CallStartVM (new_events st0 ?s') = [CallStartVM [] ip e]"
    by blast
  then have one: "filter is_CallStartVM (new_events st0 ?s')
       = [CallStartVM [] ''10.0.0.1'' (Some ''no kvm'')]"
    by (simp add: new_events_def st0_def)
  let ?M = "fake_launcher True (Some ''no subnet'') None None"
  obtain r s' where run2: "processRestart ?M ''i1'' (fake_vm None) (fake_conn True None) 7 st0
     = (r, s')"
    by (cases "processRestart ?M ''i1'' (fake_vm None) (fake_conn True None) 7 st0")
  have on: "networking_Enabled ?M (world st0) = (True, 0)"
    and bad: "createVnicCfg ?M 7 0 = ((7, Some ''no subnet''), 1)"
    by (simp_all add: fake_defs)
  from processRestart_ordering [OF run2] on bad
  have "r = Some \<lparr>err = Some ''no subnet'', code = RestartInstanceCorrupt\<rparr>"
    by blast
  with run1 off one on bad run2 show ?thesis by simp
qed

text \<open>
  C2. For every run of \<open>processRestart\<close>: a call of the VNIC creator that returned an error
  makes the result that error with \<open>RestartNetworkFailure\<close>; a call of \<open>startVM\<close> that
  returned an error makes it that error with \<open>RestartLaunchFailure\<close>; each of the three
  provisioning calls is made at most once; the result is \<open>nil\<close> exactly when no call
  returned an error; and a result that is not \<open>nil\<close> is one \<open>restartError\<close>, the error of
  the only call that failed.
\<close>

theorem processRestart_failure_reasons:
  assumes run: "processRestart L dir vm conn cfg s = (r, s')"
  shows "(\<forall>v n e. CallCreateVnic v n (Some e) \<in> set (new_events s s') \<longrightarrow>
            r = Some \<lparr>err = Some e, code = RestartNetworkFailure\<rparr>)
       \<and> (\<forall>n ip e. CallStartVM n ip (Some e) \<in> set (new_events s s') \<longrightarrow>
            r = Some \<lparr>err = Some e, code = RestartLaunchFailure\<rparr>)
       \<and> length (filter is_CallCreateVnicCfg (new_events s s')) \<le> 1
       \<and> length (filter is_CallCreateVnic (new_events s s')) \<le> 1
       \<and> length (filter is_CallStartVM (new_events s s')) \<le> 1
       \<and> ((r = None) = (\<forall>ev \<in> set (new_events s s'). returned_error ev = None))
       \<and> (\<forall>re. r = Some re \<longrightarrow>
            (\<exists>ev. filter (\<lambda>ev. returned_error ev \<noteq> None) (new_events s s') = [ev]
                  \<and> is_provisioning ev \<and> err re = returned_error ev))"
proof (intro conjI allI impI)
  fix v n e
  assume "CallCreateVnic v n (Some e) \<in> set (new_events s s')"
  with processRestart_shapes [OF run]
  show "r = Some \<lparr>err = Some e, code = RestartNetworkFailure\<rparr>" by auto
next
  fix n ip e
  assume "CallStartVM n ip (Some e) \<in> set (new_events s s')"
  with processRestart_shapes [OF run]
  show "r = Some \<lparr>err = Some e, code = RestartLaunchFailure\<rparr>" by auto
next
  from processRestart_shapes [OF run]
  show "length (filter is_CallCreateVnicCfg (new_events s s')) \<le> 1" by auto
next
  from processRestart_shapes [OF run]
  show "length (filter is_CallCreateVnic (new_events s s')) \<le> 1" by auto
next
  from processRestart_shapes [OF run]
  show "length (filter is_CallStartVM (new_events s s')) \<le> 1" by auto
next
  from processRestart_shapes [OF run]
  show "(r = None) = (\<forall>ev \<in> set (new_events s s'). returned_error ev = None)"
    by (elim disjE exE conjE) (simp_all split: if_splits)
next
  fix re
  assume "r = Some re"
  with processRestart_shapes [OF run]
  show "\<exists>ev. filter (\<lambda>ev. returned_error ev \<noteq> None) (new_events s s') = [ev]
                  \<and> is_provisioning ev \<and> err re = returned_error ev"
    by (elim disjE exE conjE) (auto split: if_splits)
qed

theorem processRestart_failure_reasons_witness:
  "processRestart (fake_launcher True None (Some ''no tunnel'') None) ''i1'' (fake_vm None)
      (fake_conn True None) 7 st0
     = (Some \<lparr>err = Some ''no tunnel'', code = RestartNetworkFailure\<rparr>,
        \<lparr>trace = [CallEnabled True, CallCreateVnicCfg 7 None,
                  CallCreateVnic 7 ''vnic0'' (Some ''no tunnel'')], world = 2\<rparr>)
   \<and> processRestart (fake_launcher True None None None) ''i1'' (fake_vm (Some ''no kvm''))
      (fake_conn True None) 7 st0
     = (Some \<lparr>err = Some ''no kvm'', code = RestartLaunchFailure\<rparr>,
        \<lparr>trace = [CallEnabled True, CallCreateVnicCfg 7 None, CallCreateVnic 7 ''vnic0'' None,
                  CallGetNodeIPAddress ''10.0.0.1'',
                  CallStartVM ''vnic0'' ''10.0.0.1'' (Some ''no kvm'')], world = 3\<rparr>)
   \<and> fst (processRestart (fake_launcher True None None None) ''i1'' (fake_vm None)
        (fake_conn True None) 7 st0) = None
   \<and> filter (\<lambda>ev. returned_error ev \<noteq> None)
        (new_events st0 \<lparr>trace = [CallEnabled True, CallCreateVnicCfg 7 None,
                  CallCreateVnic 7 ''vnic0'' (Some ''no tunnel'')], world = 2\<rparr>)
       = [CallCreateVnic 7 ''vnic0'' (Some ''no tunnel'')]"
proof -
  obtain r1 s1 where run1: "processRestart (fake_launcher True None (Some ''no tunnel'') None)
      ''i1'' (fake_vm None) (fake_conn True None) 7 st0 = (r1, s1)"
    by (cases "processRestart (fake_launcher True None (Some ''no tunnel'') None)
      ''i1'' (fake_vm None) (fake_conn True None) 7 st0")
  then have s1: "s1 = \<lparr>trace = [CallEnabled True, CallCreateVnicCfg 7 None,
                  CallCreateVnic 7 ''vnic0'' (Some ''no tunnel'')], world = 2\<rparr>"
    by (auto simp: restart_defs fake_defs)
  then have "CallCreateVnic 7 ''vnic0'' (Some ''no tunnel'') \<in> set (new_events st0 s1)"
    by (simp add: new_events_def st0_def)
  with processRestart_failure_reasons [OF run1]
  have r1: "r1 = Some \<lparr>err = Some ''no tunnel'', code = RestartNetworkFailure\<rparr>" by blast
  obtain r2 s2 where run2: "processRestart (fake_launcher True None None None)
      ''i1'' (fake_vm (Some ''no kvm'')) (fake_conn True None) 7 st0 = (r2, s2)"
    by (cases "processRestart (fake_launcher True None None None)
      ''i1'' (fake_vm (Some ''no kvm'')) (fake_conn True None) 7 st0")
  then have s2: "s2 = \<lparr>trace = [CallEnabled True, CallCreateVnicCfg 7 None,
                  CallCreateVnic 7 ''vnic0'' None, CallGetNodeIPAddress ''10.0.0.1'',
                  CallStartVM ''vnic0'' ''10.0.0.1'' (Some ''no kvm'')], world = 3\<rparr>"
    by (auto simp: restart_defs fake_defs)
  then have "CallStartVM ''vnic0'' ''10.0.0.1'' (Some ''no kvm'') \<in> set (new_events st0 s2)"
    by (simp add: new_events_def st0_def)
  with processRestart_failure_reasons [OF run2]
  have r2: "r2 = Some \<lparr>err = Some ''no kvm'', code = RestartLaunchFailure\<rparr>" by blast
  obtain r3 s3 where run3: "processRestart (fake_launcher True None None None)
      ''i1'' (fake_vm None) (fake_conn True None) 7 st0 = (r3, s3)"
    by (cases "processRestart (fake_launcher True None None None)
      ''i1'' (fake_vm None) (fake_conn True None) 7 st0")
  then have s3: "s3 = \<lparr>trace = [CallEnabled True, CallCreateVnicCfg 7 None,
                  CallCreateVnic 7 ''vnic0'' None, CallGetNodeIPAddress ''10.0.0.1'',
                  CallStartVM ''vnic0'' ''10.0.0.1'' None], world = 3\<rparr>"
    by (auto simp: restart_defs fake_defs)
  then have "\<forall>ev \<in> set (new_events st0 s3). returned_error ev = None"
    by (simp add: new_events_def st0_def)
  with processRestart_failure_reasons [OF run3]
  have r3: "r3 = None" by blast
  from processRestart_failure_reasons [OF run1] r1
  obtain ev where "filter (\<lambda>ev. returned_error ev \<noteq> None) (new_events st0 s1) = [ev]"
    by blast
  with s1 have one: "filter (\<lambda>ev. returned_error ev \<noteq> None) (new_events st0 s1)
      = [CallCreateVnic 7 ''vnic0'' (Some ''no tunnel'')]"
    by (auto simp: new_events_def st0_def)
  from run1 r1 s1 run2 r2 s2 run3 r3 one show ?thesis by simp
qed

text \<open>
  C9. Whatever the collaborators do, \<open>processRestart\<close> returns \<open>nil\<close> or a \<open>restartError\<close>
  whose code is \<open>RestartInstanceCorrupt\<close>, \<open>RestartNetworkFailure\<close> or
  \<open>RestartLaunchFailure\<close>, and so none of \<open>RestartNoInstance\<close>, \<open>RestartInvalidPayload\<close>,
  \<open>RestartInvalidData\<close>, \<open>RestartAlreadyRunning\<close>.
\<close>

theorem processRestart_codes:
  "fst (processRestart L dir vm conn cfg s) = None
   \<or> (\<exists>re. fst (processRestart L dir vm conn cfg s) = Some re
         \<and> code re \<in> {RestartInstanceCorrupt, RestartNetworkFailure, RestartLaunchFailure}
         \<and> code re \<notin> {RestartNoInstance, RestartInvalidPayload, RestartInvalidData,
                        RestartAlreadyRunning})"
proof -
  obtain r s' where run: "processRestart L dir vm conn cfg s = (r, s')"
    by (cases "processRestart L dir vm conn cfg s")
  from processRestart_shapes [OF run] have
    "r = None \<or> (\<exists>re. r = Some re
         \<and> code re \<in> {RestartInstanceCorrupt, RestartNetworkFailure, RestartLaunchFailure})"
    by (elim disjE exE conjE) (simp_all split: if_splits)
  with run show ?thesis by auto
qed

theorem processRestart_codes_witness:
  "code (the (fst (processRestart (fake_launcher True (Some ''no subnet'') None None) ''i1''
       (fake_vm None) (fake_conn True None) 7 st0))) = RestartInstanceCorrupt"
  using processRestart_codes [of "fake_launcher True (Some ''no subnet'') None None" "''i1''"
       "fake_vm None" "fake_conn True None" 7 st0]
  by (simp add: restart_defs fake_defs)


section \<open>Properties of the report\<close>

lemmas send_defs = send_def invoke_def glog_Errorf_def record_event_def

text \<open>
  C3. For every \<open>restartError\<close>: when \<open>isConnected\<close> answers false, \<open>send\<close> returns after that
  one call. \<open>SendError\<close> is not called, nothing is logged, and the outside state is the one
  that \<open>isConnected\<close> left.
\<close>

theorem send_not_connected:
  assumes "isConnected conn (world s) = (False, w1)"
  shows "send L re conn instance s
           = (re, \<lparr>trace = trace s @ [CallIsConnected False], world = w1\<rparr>)
       \<and> filter is_CallSendError (new_events s (snd (send L re conn instance s))) = []"
  using assms by (simp add: send_defs new_events_def)

theorem send_not_connected_witness:
  "isConnected (fake_conn False None) (world st0) = (False, 0)
   \<and> send (fake_launcher True None None None)
        \<lparr>err = Some ''no kvm'', code = RestartLaunchFailure\<rparr> (fake_conn False None) ''i1'' st0
      = (\<lparr>err = Some ''no kvm'', code = RestartLaunchFailure\<rparr>,
         \<lparr>trace = [CallIsConnected False], world = 0\<rparr>)"
proof -
  have off: "isConnected (fake_conn False None) (world st0) = (False, 0)"
    by (simp add: fake_defs)
  from send_not_connected [OF off, of "fake_launcher True None None None"
      "\<lparr>err = Some ''no kvm'', code = RestartLaunchFailure\<rparr>" "''i1''"] off
  show ?thesis
    by (simp add: st0_def)
qed

text \<open>
  C4. For every \<open>restartError\<close>: when the channel is connected, the payload is generated and
  \<open>SendError\<close> returns an error, \<open>send\<close> logs that error and returns. \<open>SendError\<close> was called
  once, and the \<open>err\<close> and \<open>code\<close> of the \<open>restartError\<close> are what they were.
\<close>

theorem send_failure_swallowed:
  assumes "isConnected conn (world s) = (True, w1)"
    and "generateRestartError L instance re w1 = ((payload, None), w2)"
    and "SendError conn RestartFailure payload w2 = ((k, Some e), w3)"
  shows "snd (send L re conn instance s)
           = \<lparr>trace = trace s @ [CallIsConnected True,
                 CallGenerateRestartError instance re None,
                 CallSendError RestartFailure payload (Some e),
                 LogErrorf ''Unable to send restart_failure: %v'' (Some e)],
              world = w3\<rparr>
       \<and> length (filter is_CallSendError (new_events s (snd (send L re conn instance s)))) = 1
       \<and> err (fst (send L re conn instance s)) = err re
       \<and> code (fst (send L re conn instance s)) = code re"
  using assms by (simp add: send_defs new_events_def)

theorem send_failure_swallowed_witness:
  "isConnected (fake_conn True (Some ''broken pipe'')) (world st0) = (True, 0)
   \<and> generateRestartError (fake_launcher True None None None) ''i1''
        \<lparr>err = Some ''no kvm'', code = RestartLaunchFailure\<rparr> 0 = ((''i1'', None), 0)
   \<and> SendError (fake_conn True (Some ''broken pipe'')) RestartFailure ''i1'' 0
        = ((0, Some ''broken pipe''), 1)
   \<and> send (fake_launcher True None None None)
        \<lparr>err = Some ''no kvm'', code = RestartLaunchFailure\<rparr>
        (fake_conn True (Some ''broken pipe'')) ''i1'' st0
      = (\<lparr>err = Some ''no kvm'', code = RestartLaunchFailure\<rparr>,
         \<lparr>trace = [CallIsConnected True,
             CallGenerateRestartError ''i1'' \<lparr>err = Some ''no kvm'', code = RestartLaunchFailure\<rparr> None,
             CallSendError RestartFailure ''i1'' (Some ''broken pipe''),
             LogErrorf ''Unable to send restart_failure: %v'' (Some ''broken pipe'')],
           world = 1\<rparr>)"
proof -
  let ?re = "\<lparr>err = Some ''no kvm'', code = RestartLaunchFailure\<rparr>"
  have a: "isConnected (fake_conn True (Some ''broken pipe'')) (world st0) = (True, 0)"
    and b: "generateRestartError (fake_launcher True None None None) ''i1'' ?re 0
        = ((''i1'', None), 0)"
    and c: "SendError (fake_conn True (Some ''broken pipe'')) RestartFailure ''i1'' 0
        = ((0, Some ''broken pipe''), 1)"
    by (simp_all add: fake_defs)
  from send_failure_swallowed [OF a b c] a b c show ?thesis
    by (simp add: st0_def prod_eq_iff restartError.equality)
qed

text \<open>
  C10. For every \<open>restartError\<close>: when the channel is connected and
  \<open>generateRestartError\<close> returns an error, \<open>send\<close> logs that error and returns.
  \<open>SendError\<close> is not called, and the \<open>restartError\<close> is what it was.
\<close>

theorem send_generate_failed:
  assumes "isConnected conn (world s) = (True, w1)"
    and "generateRestartError L instance re w1 = ((payload, Some e), w2)"
  shows "send L re conn instance s
           = (re, \<lparr>trace = trace s @ [CallIsConnected True,
                 CallGenerateRestartError instance re (Some e),
                 LogErrorf ''Unable to generate payload for restart_failure: %v'' (Some e)],
              world = w2\<rparr>)
       \<and> filter is_CallSendError (new_events s (snd (send L re conn instance s))) = []"
  using assms by (simp add: send_defs new_events_def)

theorem send_generate_failed_witness:
  "isConnected (fake_conn True None) (world st0) = (True, 0)
   \<and> generateRestartError (fake_launcher True None None (Some ''yaml'')) ''i1''
        \<lparr>err = Some ''no kvm'', code = RestartLaunchFailure\<rparr> 0 = ((''i1'', Some ''yaml''), 0)
   \<and> send (fake_launcher True None None (Some ''yaml''))
        \<lparr>err = Some ''no kvm'', code = RestartLaunchFailure\<rparr> (fake_conn True None) ''i1'' st0
      = (\<lparr>err = Some ''no kvm'', code = RestartLaunchFailure\<rparr>,
         \<lparr>trace = [CallIsConnected True,
             CallGenerateRestartError ''i1''
               \<lparr>err = Some ''no kvm'', code = RestartLaunchFailure\<rparr> (Some ''yaml''),
             LogErrorf ''Unable to generate payload for restart_failure: %v'' (Some ''yaml'')],
           world = 0\<rparr>)"
proof -
  let ?re = "\<lparr>err = Some ''no kvm'', code = RestartLaunchFailure\<rparr>"
  have a: "isConnected (fake_conn True None) (world st0) = (True, 0)"
    and b: "generateRestartError (fake_launcher True None None (Some ''yaml'')) ''i1'' ?re 0
        = ((''i1'', Some ''yaml''), 0)"
    by (simp_all add: fake_defs)
  from send_generate_failed [OF a b] a b show ?thesis
    by (simp add: st0_def)
qed

section \<open>Properties of the payload codec\<close>

lemma lines_of_line: "nl \<notin> set a \<Longrightarrow> lines_of (a @ nl # r) = a # lines_of r"
  by (induction a) auto

lemma doc_lines_three:
  assumes "nl \<notin> set a" "nl \<notin> set b" "nl \<notin> set c"
  shows "doc_lines (a @ nl # b @ nl # c @ [nl]) = [a, b, c]"
proof -
  have "lines_of (a @ nl # b @ nl # c @ [nl]) = [a, b, c, []]"
    using assms by (simp add: lines_of_line)
  then show ?thesis by (simp add: doc_lines_def)
qed

lemma doc_lines_two:
  assumes "nl \<notin> set a" "nl \<notin> set b"
  shows "doc_lines (a @ nl # b @ [nl]) = [a, b]"
proof -
  have "lines_of (a @ nl # b @ [nl]) = [a, b, []]"
    using assms by (simp add: lines_of_line)
  then show ?thesis by (simp add: doc_lines_def)
qed

lemma is_uuid_chars:
  assumes "is_uuid s" and "c \<in> set s"
  shows "c = CHR ''-'' \<or> is_hex c"
proof -
  from assms(2) obtain i where "i < length s" and "s ! i = c"
    by (auto simp: in_set_conv_nth)
  with assms(1) have "uuid_char_ok i c"
    by (auto simp: is_uuid_def list_all_iff)
  then show ?thesis
    by (auto simp: uuid_char_ok_def split: if_splits)
qed

lemma is_uuid_no_nl: "is_uuid s \<Longrightarrow> nl \<notin> set s"
  using is_uuid_chars [of s nl] by (auto simp: is_hex_def nl_def)

lemma reason_of_token_token: "reason_of_token (reason_token r) = Some r"
  by (cases r) (simp_all add: reason_of_token_def all_reasons_def)

lemma reason_token_no_nl: "nl \<notin> set (reason_token r)"
  by (cases r) (simp_all add: nl_def)

lemma reason_token_chars: "reason_token r \<noteq> [] \<and> list_all is_token_char (reason_token r)"
  by (cases r) (simp_all add: is_token_char_def)

lemma parse_command_lines:
  assumes "k \<in> {''stop'', ''delete'', ''restart'', ''start''}"
  shows "build [k @ '':'', ''  instance_uuid: '' @ iu, ''  workload_agent_uuid: '' @ au]
     = Inr ([], [(k, Mapping [(''instance_uuid'', iu), (''workload_agent_uuid'', au)])])"
  using assms by (auto simp: parse_kv_def)

lemma decode_encode_body:
  assumes "k \<in> {''stop'', ''delete'', ''restart'', ''start''}" and "nl \<notin> set iu" and "nl \<notin> set au"
  shows "parse (k @ '':'' @ [nl] @ ''  instance_uuid: '' @ iu @ [nl]
                @ ''  workload_agent_uuid: '' @ au @ [nl])
     = Inr [(k, Mapping [(''instance_uuid'', iu), (''workload_agent_uuid'', au)])]"
proof -
  have a: "nl \<notin> set (k @ '':'')" using assms(1) by (auto simp: nl_def)
  have b: "nl \<notin> set (''  instance_uuid: '' @ iu)" using assms(2) by (simp add: nl_def)
  have c: "nl \<notin> set (''  workload_agent_uuid: '' @ au)" using assms(3) by (simp add: nl_def)
  have "doc_lines ((k @ '':'') @ nl # (''  instance_uuid: '' @ iu) @ nl #
            (''  workload_agent_uuid: '' @ au) @ [nl])
        = [k @ '':'', ''  instance_uuid: '' @ iu, ''  workload_agent_uuid: '' @ au]"
    by (rule doc_lines_three [OF a b c])
  then have "doc_lines (k @ '':'' @ [nl] @ ''  instance_uuid: '' @ iu @ [nl]
                @ ''  workload_agent_uuid: '' @ au @ [nl])
        = [k @ '':'', ''  instance_uuid: '' @ iu, ''  workload_agent_uuid: '' @ au]"
    by simp
  then show ?thesis
    unfolding parse_def using parse_command_lines [OF assms(1), of iu au] by simp
qed

lemma decode_cmd_fields:
  "decode_cmd [(''instance_uuid'', InstanceUUID b), (''workload_agent_uuid'', WorkloadAgentUUID b)]
     = Inr b"
  by (cases b) (simp add: decode_cmd_def)

lemma decode_encode:
  assumes "is_uuid (InstanceUUID (command_body c))"
    and "is_uuid (WorkloadAgentUUID (command_body c))"
  shows "decode (encode c) = Inr c"
proof -
  have k: "command_key c \<in> {''stop'', ''delete'', ''restart'', ''start''}" by (cases c) simp_all
  obtain f where f: "command_of_key (command_key c) = Some f" and fc: "f (command_body c) = c"
    by (cases c) (simp_all add: command_of_key_def)
  have p: "parse (encode c) = Inr [(command_key c,
       Mapping [(''instance_uuid'', InstanceUUID (command_body c)),
                (''workload_agent_uuid'', WorkloadAgentUUID (command_body c))])]"
    unfolding encode_def
    by (rule decode_encode_body [OF k is_uuid_no_nl [OF assms(1)] is_uuid_no_nl [OF assms(2)]])
  show ?thesis
    unfolding decode_def p decode_doc_def by (simp add: f fc decode_cmd_fields)
qed

lemma parse_error_lines:
  "build [''instance_uuid: '' @ iu, ''reason: '' @ t]
     = Inr ([], [(''instance_uuid'', Scalar iu), (''reason'', Scalar t)])"
  by (simp add: parse_kv_def)

lemma decode_error_encode_error:
  assumes "is_uuid (FailureInstanceUUID e)"
  shows "decode_error (encode_error e) = Inr e"
proof -
  have a: "nl \<notin> set (''instance_uuid: '' @ FailureInstanceUUID e)"
    using is_uuid_no_nl [OF assms] by (simp add: nl_def)
  have b: "nl \<notin> set (''reason: '' @ reason_token (Reason e))"
    using reason_token_no_nl [of "Reason e"] by (simp add: nl_def)
  have "doc_lines ((''instance_uuid: '' @ FailureInstanceUUID e) @ nl #
            (''reason: '' @ reason_token (Reason e)) @ [nl])
        = [''instance_uuid: '' @ FailureInstanceUUID e, ''reason: '' @ reason_token (Reason e)]"
    by (rule doc_lines_two [OF a b])
  then have dl: "doc_lines (encode_error e)
        = [''instance_uuid: '' @ FailureInstanceUUID e, ''reason: '' @ reason_token (Reason e)]"
    by (simp add: encode_error_def)
  have "parse (encode_error e)
        = Inr [(''instance_uuid'', Scalar (FailureInstanceUUID e)),
               (''reason'', Scalar (reason_token (Reason e)))]"
    unfolding parse_def dl parse_error_lines by simp
  then show ?thesis
    by (simp add: decode_error_def decode_error_doc_def reason_of_token_token)
qed

text \<open>
  C5. Every command (stop, delete, restart or start) whose two UUIDs are well formed
  decodes, after encoding, to itself, and so does every restart error payload whose UUID
  is well formed; the encoding is a function of the value alone. The stop fixture decodes to the Stop command with
  \<open>instance_uuid = 3390740c-dce9-48d6-b83a-a717417072ce\<close> and
  \<open>workload_agent_uuid = 59460b8a-5f53-4e3e-b5ce-b71fed8c7e64\<close>, and that command encodes
  to the fixture, byte for byte.
\<close>

theorem codec_roundtrip:
  "(\<forall>c. is_uuid (InstanceUUID (command_body c)) \<and> is_uuid (WorkloadAgentUUID (command_body c))
        \<longrightarrow> decode (encode c) = Inr c)
   \<and> (\<forall>e :: ErrorRestartFailure. is_uuid (FailureInstanceUUID e)
        \<longrightarrow> decode_error (encode_error e) = Inr e)
   \<and> decode stopYaml = Inr (Stop \<lparr>InstanceUUID = instanceUUID, WorkloadAgentUUID = agentUUID\<rparr>)
   \<and> encode (Stop \<lparr>InstanceUUID = instanceUUID, WorkloadAgentUUID = agentUUID\<rparr>) = stopYaml"
proof (intro conjI allI impI)
  fix c
  assume "is_uuid (InstanceUUID (command_body c)) \<and> is_uuid (WorkloadAgentUUID (command_body c))"
  then show "decode (encode c) = Inr c" by (simp add: decode_encode)
next
  fix e :: ErrorRestartFailure
  assume "is_uuid (FailureInstanceUUID e)"
  then show "decode_error (encode_error e) = Inr e" by (rule decode_error_encode_error)
next
  show "decode stopYaml = Inr (Stop \<lparr>InstanceUUID = instanceUUID, WorkloadAgentUUID = agentUUID\<rparr>)"
    by code_simp
next
  show "encode (Stop \<lparr>InstanceUUID = instanceUUID, WorkloadAgentUUID = agentUUID\<rparr>) = stopYaml"
    by (simp add: encode_def stopYaml_def)
qed

theorem codec_roundtrip_witness:
  "is_uuid instanceUUID \<and> is_uuid agentUUID
   \<and> decode (encode (Delete \<lparr>InstanceUUID = instanceUUID, WorkloadAgentUUID = agentUUID\<rparr>))
       = Inr (Delete \<lparr>InstanceUUID = instanceUUID, WorkloadAgentUUID = agentUUID\<rparr>)
   \<and> decode (encode (Start \<lparr>InstanceUUID = instanceUUID, WorkloadAgentUUID = agentUUID\<rparr>))
       = Inr (Start \<lparr>InstanceUUID = instanceUUID, WorkloadAgentUUID = agentUUID\<rparr>)
   \<and> decode_error (encode_error \<lparr>FailureInstanceUUID = instanceUUID, Reason = RestartInvalidPayload\<rparr>)
       = Inr \<lparr>FailureInstanceUUID = instanceUUID, Reason = RestartInvalidPayload\<rparr>"
proof -
  have i: "is_uuid instanceUUID" by code_simp
  have a: "is_uuid agentUUID" by code_simp
  from codec_roundtrip i a show ?thesis by simp
qed

text \<open>
  C7. The restart error payload with \<open>instance_uuid = 2400bce6-ccc8-4a45-b2aa-b5cc3790077b\<close>
  and \<open>reason = already_running\<close> decodes to the reason \<open>RestartAlreadyRunning\<close>, whose
  description is "Instance is already running". Every reason is written on the wire as
  its token, a non-empty string of lower-case letters and underscores, and the token
  determines the reason.
\<close>

theorem restart_reason_wire_tokens:
  "decode_error restartFailureYaml
      = Inr \<lparr>FailureInstanceUUID = ''2400bce6-ccc8-4a45-b2aa-b5cc3790077b'',
             Reason = RestartAlreadyRunning\<rparr>
   \<and> RestartFailureReason_String RestartAlreadyRunning = ''Instance is already running''
   \<and> reason_token RestartAlreadyRunning = ''already_running''
   \<and> (\<forall>r. reason_token r \<noteq> [] \<and> list_all is_token_char (reason_token r))
   \<and> (\<forall>r. reason_of_token (reason_token r) = Some r)
   \<and> (\<forall>iu r. encode_error \<lparr>FailureInstanceUUID = iu, Reason = r\<rparr>
         = ''instance_uuid: '' @ iu @ [nl] @ ''reason: '' @ reason_token r @ [nl])"
proof (intro conjI allI)
  show "decode_error restartFailureYaml
      = Inr \<lparr>FailureInstanceUUID = ''2400bce6-ccc8-4a45-b2aa-b5cc3790077b'',
             Reason = RestartAlreadyRunning\<rparr>"
    by code_simp
next
  show "RestartFailureReason_String RestartAlreadyRunning = ''Instance is already running''"
    by simp
next
  show "reason_token RestartAlreadyRunning = ''already_running''" by simp
next
  fix r show "reason_token r \<noteq> []" by (simp add: reason_token_chars)
next
  fix r show "list_all is_token_char (reason_token r)" by (simp add: reason_token_chars)
next
  fix r show "reason_of_token (reason_token r) = Some r" by (rule reason_of_token_token)
next
  fix iu r
  show "encode_error \<lparr>FailureInstanceUUID = iu, Reason = r\<rparr>
         = ''instance_uuid: '' @ iu @ [nl] @ ''reason: '' @ reason_token r @ [nl]"
    by (simp add: encode_error_def)
qed

section \<open>Properties of the taxonomy\<close>

text \<open>
  C8. The taxonomy has exactly seven members, and the description is defined on each:
  the seven descriptions are the fixed strings of the test table, none is empty, and no
  two members share one.
\<close>

theorem RestartFailureReason_String_total:
  "(\<forall>r. r \<in> set all_reasons)
   \<and> length all_reasons = 7
   \<and> map RestartFailureReason_String all_reasons =
       [''Instance does not exist'',
        ''YAML payload is corrupt'',
        ''Command section of YAML payload is corrupt or missing required information'',
        ''Instance is already running'',
        ''Instance is corrupt'',
        ''Failed to launch instance'',
        ''Failed to locate VNIC for instance'']
   \<and> (\<forall>r. RestartFailureReason_String r \<noteq> [])
   \<and> distinct (map RestartFailureReason_String all_reasons)"
proof (intro conjI allI)
  fix r show "r \<in> set all_reasons" by (cases r) (simp_all add: all_reasons_def)
next
  show "length all_reasons = 7" by (simp add: all_reasons_def)
next
  show "map RestartFailureReason_String all_reasons =
       [''Instance does not exist'',
        ''YAML payload is corrupt'',
        ''Command section of YAML payload is corrupt or missing required information'',
        ''Instance is already running'',
        ''Instance is corrupt'',
        ''Failed to launch instance'',
        ''Failed to locate VNIC for instance'']"
    by (simp add: all_reasons_def)
next
  fix r show "RestartFailureReason_String r \<noteq> []" by (cases r) simp_all
next
  show "distinct (map RestartFailureReason_String all_reasons)"
    by (simp add: all_reasons_def)
qed

end
